theory Spec2Isabelle
  imports Main "HOL-Library.Sublist"
begin

section \<open>JavaScript values and errors\<close>

text \<open>
  The adapter (\<^verbatim>\<open>src/index.ts\<close>: \<^verbatim>\<open>FastifyAuth\<close>, \<^verbatim>\<open>getSession\<close>,
  \<^verbatim>\<open>getBasePath\<close>) is modelled as pure functions. A rejected promise or a
  \<^verbatim>\<open>throw\<close> is the \<open>Inl\<close> branch of a sum; \<^verbatim>\<open>await\<close> is sequencing.

  A thrown JavaScript error is kept as its constructor name and its message.
\<close>

datatype js_error = JsError (err_name: string) (err_message: string)

text \<open>
  A JavaScript number: \<^verbatim>\<open>NaN\<close>, an infinity with its sign, or \<open>Finite m e\<close>, the
  number \<open>m\<close> times two to the power \<open>e\<close>. Every double is one of these (both zeros
  have \<open>m = 0\<close>); the code only tests a number for truthiness and asks for its keys.
\<close>

datatype js_number = NaN | Infinity bool | Finite int int

text \<open>
  The values \<^verbatim>\<open>response.json()\<close> can resolve to: the JSON values, and
  \<^verbatim>\<open>undefined\<close> (which a test double of the engine may produce). An object is the
  list of its own enumerable properties in insertion order, each key once.
\<close>

datatype jsval =
    JUndefined
  | JNull
  | JBool bool
  | JNum js_number
  | JStr string
  | JArr "jsval list"
  | JObj "(string \<times> jsval) list"

subsection \<open>Truthiness, own keys, property reads\<close>

text \<open>
  \<^verbatim>\<open>!data\<close> is true exactly when \<open>data\<close> is falsy: \<^verbatim>\<open>undefined\<close>, \<^verbatim>\<open>null\<close>,
  \<^verbatim>\<open>false\<close>, a zero, \<^verbatim>\<open>NaN\<close> and the empty string.
\<close>

fun truthy :: "jsval \<Rightarrow> bool" where
  "truthy JUndefined = False"
| "truthy JNull = False"
| "truthy (JBool b) = b"
| "truthy (JNum n) = (case n of NaN \<Rightarrow> False | Infinity sg \<Rightarrow> True | Finite m e \<Rightarrow> m \<noteq> 0)"
| "truthy (JStr s) = (s \<noteq> [])"
| "truthy (JArr xs) = True"
| "truthy (JObj kvs) = True"

text \<open>The decimal digits of an array index, as the key names of an array or a string.\<close>

definition digit_char :: "nat \<Rightarrow> char" where
  "digit_char d = char_of (48 + d)"

function show_nat :: "nat \<Rightarrow> string" where
  "show_nat n = (if n < 10 then [digit_char n] else show_nat (n div 10) @ [digit_char (n mod 10)])"
  by pat_completeness auto
termination
  by (relation "measure id") auto

declare show_nat.simps [simp del]

text \<open>
  \<^verbatim>\<open>Object.keys(v)\<close>: a \<^verbatim>\<open>TypeError\<close> on \<^verbatim>\<open>undefined\<close> and \<^verbatim>\<open>null\<close>, no
  keys for a boolean or a number, the indices for a string or an array, the own keys
  for an object.
\<close>

fun Object_keys :: "jsval \<Rightarrow> js_error + string list" where
  "Object_keys JUndefined = Inl (JsError ''TypeError'' ''Cannot convert undefined or null to object'')"
| "Object_keys JNull = Inl (JsError ''TypeError'' ''Cannot convert undefined or null to object'')"
| "Object_keys (JBool b) = Inr []"
| "Object_keys (JNum n) = Inr []"
| "Object_keys (JStr s) = Inr (map show_nat [0..<length s])"
| "Object_keys (JArr xs) = Inr (map show_nat [0..<length xs])"
| "Object_keys (JObj kvs) = Inr (map fst kvs)"

text \<open>
  \<^verbatim>\<open>data.message\<close>: a \<^verbatim>\<open>TypeError\<close> on \<^verbatim>\<open>undefined\<close> and \<^verbatim>\<open>null\<close>; an object
  gives the property's value or \<^verbatim>\<open>undefined\<close>; a primitive or an array has no
  property of that name.
\<close>

fun get_message :: "jsval \<Rightarrow> js_error + jsval" where
  "get_message JUndefined = Inl (JsError ''TypeError'' ''Cannot read properties of undefined'')"
| "get_message JNull = Inl (JsError ''TypeError'' ''Cannot read properties of null'')"
| "get_message (JObj kvs) = Inr (case map_of kvs ''message'' of None \<Rightarrow> JUndefined | Some v \<Rightarrow> v)"
| "get_message v = Inr JUndefined"

subsection \<open>\<^verbatim>\<open>String.prototype.split\<close> with a string separator\<close>

text \<open>
  \<open>split_from sep acc s\<close> scans \<open>s\<close> from the left, \<open>acc\<close> holding the current piece
  reversed. At each occurrence of a non-empty separator the piece is closed and the
  scan resumes after the separator. With the empty separator every code unit is a
  piece of its own.
\<close>

function split_from :: "'a list \<Rightarrow> 'a list \<Rightarrow> 'a list \<Rightarrow> 'a list list" where
  "split_from sep acc s =
     (if s = [] then [rev acc]
      else if sep \<noteq> [] \<and> prefix sep s then rev acc # split_from sep [] (drop (length sep) s)
      else split_from sep (hd s # acc) (tl s))"
  by pat_completeness auto
termination
  by (relation "measure (\<lambda>(sep, acc, s). length s)") auto

declare split_from.simps [simp del]

definition js_split :: "'a list \<Rightarrow> 'a list \<Rightarrow> 'a list list" where
  "js_split s sep = (if sep = [] then map (\<lambda>c. [c]) s else split_from sep [] s)"

section \<open>The host framework's request and the configuration object\<close>

text \<open>
  The fields of \<^verbatim>\<open>FastifyRequest\<close> the adapter reads. \<open>headers\<close> is Node's header
  object (lower-case names); \<open>routeOptions_config_url\<close> is
  \<^verbatim>\<open>req.routeOptions.config.url\<close>, the URL pattern the matched route was registered
  with, mount prefix included.
\<close>

record fastify_request =
  req_method :: string
  req_url :: string
  protocol :: string
  headers :: "(string \<times> string) list"
  routeOptions_config_url :: string

text \<open>
  \<^verbatim>\<open>FastifyAuthConfig\<close>: the one field this layer writes, \<open>basePath\<close> (\<open>None\<close> is
  \<^verbatim>\<open>undefined\<close>), and everything else it only passes on.
\<close>

record 'o auth_config =
  basePath :: "string option"
  others :: 'o

text \<open>
  \<^verbatim>\<open>req.routeOptions.config.url.split('/*')[0]\<close>. Reading index 0 of an empty array
  would give \<^verbatim>\<open>undefined\<close>.
\<close>

definition getBasePath :: "fastify_request \<Rightarrow> string option" where
  "getBasePath req =
     (case js_split (routeOptions_config_url req) ''/*'' of [] \<Rightarrow> None | p # _ \<Rightarrow> Some p)"

section \<open>Canonical request and response, the reply, the collaborators\<close>

text \<open>The standard \<^verbatim>\<open>Request\<close> object handed to the engine.\<close>

record web_request =
  wr_url :: string
  wr_method :: string
  wr_headers :: "(string \<times> string) list"
  wr_body :: "string option"

text \<open>
  The standard \<^verbatim>\<open>Response\<close> the engine answers with. \<open>status\<close> is \<open>None\<close> when the
  object has no \<^verbatim>\<open>status\<close> property (a test double may omit it); \<open>json\<close> is what
  \<^verbatim>\<open>await response.json()\<close> gives: the parsed value, or the rejection.
\<close>

record response =
  status :: "int option"
  resp_headers :: "(string \<times> string) list"
  body :: "string option"
  json :: "js_error + jsval"

record fastify_reply =
  statusCode :: int
  reply_headers :: "(string \<times> string) list"
  payload :: "string option"
  sent :: bool

text \<open>
  What the adapter calls and does not define in \<^verbatim>\<open>index.ts\<close>: the engine's
  \<^verbatim>\<open>setEnvDefaults\<close> (with \<^verbatim>\<open>process.env\<close> fixed), \<^verbatim>\<open>createActionURL\<close> and
  \<^verbatim>\<open>Auth\<close>, and the two translators \<^verbatim>\<open>toWebRequest\<close> and \<^verbatim>\<open>toFastifyReply\<close>
  imported from \<^verbatim>\<open>./lib/index.js\<close>. With them, the runtime's conversion of a value
  to a string (\<^verbatim>\<open>ToString\<close> of the language), which can throw. They are
  parameters: every theorem below holds for all of them.
\<close>

record 'o deps =
  setEnvDefaults :: "'o auth_config \<Rightarrow> 'o auth_config"
  createActionURL ::
    "string \<Rightarrow> string \<Rightarrow> (string \<times> string) list \<Rightarrow> 'o auth_config \<Rightarrow> js_error + string"
  Auth :: "web_request \<Rightarrow> 'o auth_config \<Rightarrow> js_error + response"
  toWebRequest :: "fastify_request \<Rightarrow> js_error + web_request"
  toFastifyReply :: "response \<Rightarrow> fastify_reply \<Rightarrow> js_error + fastify_reply"
  ToString :: "jsval \<Rightarrow> js_error + string"

text \<open>
  What a call leaves behind: the shared configuration object as it is afterwards, the
  calls made to the engine (request and configuration as passed), and the value
  returned or the error thrown.
\<close>

record ('o, 'r) outcome =
  config_after :: "'o auth_config"
  engine_calls :: "(web_request \<times> 'o auth_config) list"
  result :: "js_error + 'r"

section \<open>The session getter\<close>

text \<open>
  \<^verbatim>\<open>new Request(url, { headers: { cookie: req.headers.cookie ?? '' } })\<close>: a GET
  request without a body.
\<close>

definition session_request :: "string \<Rightarrow> fastify_request \<Rightarrow> web_request" where
  "session_request url req =
     \<lparr>wr_url = url, wr_method = ''GET'',
      wr_headers = [(''cookie'', case map_of (headers req) ''cookie'' of None \<Rightarrow> [] | Some c \<Rightarrow> c)],
      wr_body = None\<rparr>"

text \<open>\<^verbatim>\<open>!data || !Object.keys(data).length\<close>, the second operand read only for a truthy \<open>data\<close>.\<close>

definition body_is_empty :: "jsval \<Rightarrow> js_error + bool" where
  "body_is_empty data =
     (if \<not> truthy data then Inr True
      else case Object_keys data of Inl e \<Rightarrow> Inl e | Inr ks \<Rightarrow> Inr (length ks = 0))"

text \<open>
  \<^verbatim>\<open>new Error(m)\<close>: with \<^verbatim>\<open>m\<close> undefined the error has no message of its own and
  reads as the empty string; a string is the message as it is; any other value is
  converted by the runtime, and the constructor throws what the conversion throws.
\<close>

definition new_Error :: "'o deps \<Rightarrow> jsval \<Rightarrow> js_error + js_error" where
  "new_Error d m =
     (case m of
        JUndefined \<Rightarrow> Inr (JsError ''Error'' [])
      | JStr t \<Rightarrow> Inr (JsError ''Error'' t)
      | _ \<Rightarrow> (case ToString d m of Inl e \<Rightarrow> Inl e | Inr t \<Rightarrow> Inr (JsError ''Error'' t)))"

text \<open>
  The part of \<^verbatim>\<open>getSession\<close> after the engine has answered. \<open>None\<close> is the returned
  \<^verbatim>\<open>null\<close>.
\<close>

definition session_result :: "'o deps \<Rightarrow> response \<Rightarrow> js_error + jsval option" where
  "session_result d resp =
     (let st = (case status resp of None \<Rightarrow> 200 | Some s \<Rightarrow> s) in
      case json resp of
        Inl e \<Rightarrow> Inl e
      | Inr data \<Rightarrow>
          (case body_is_empty data of
             Inl e \<Rightarrow> Inl e
           | Inr True \<Rightarrow> Inr None
           | Inr False \<Rightarrow>
               if st = 200 then Inr (Some data)
               else (case get_message data of
                       Inl e \<Rightarrow> Inl e
                     | Inr m \<Rightarrow>
                         (case new_Error d m of Inl e \<Rightarrow> Inl e | Inr err \<Rightarrow> Inl err))))"

definition getSession ::
  "'o deps \<Rightarrow> fastify_request \<Rightarrow> 'o auth_config \<Rightarrow> ('o, jsval option) outcome" where
  "getSession d req config =
     (let config1 = setEnvDefaults d config in
      case createActionURL d ''session'' (protocol req) (headers req) config1 of
        Inl e \<Rightarrow> \<lparr>config_after = config1, engine_calls = [], result = Inl e\<rparr>
      | Inr url \<Rightarrow>
          (let request = session_request url req in
           case Auth d request config1 of
             Inl e \<Rightarrow>
               \<lparr>config_after = config1, engine_calls = [(request, config1)], result = Inl e\<rparr>
           | Inr resp \<Rightarrow>
               \<lparr>config_after = config1, engine_calls = [(request, config1)],
                result = session_result d resp\<rparr>))"

section \<open>The plugin registrant\<close>

text \<open>
  The catch-all handler. It writes \<open>basePath\<close> on the shared configuration, translates
  the request, awaits the engine and hands the answer to the reply translator; there
  is no \<^verbatim>\<open>try\<close> around any of it.
\<close>

definition route_handler ::
  "'o deps \<Rightarrow> 'o auth_config \<Rightarrow> fastify_request \<Rightarrow> fastify_reply \<Rightarrow> ('o, fastify_reply) outcome" where
  "route_handler d config request reply =
     (let config1 = config\<lparr>basePath := getBasePath request\<rparr> in
      case toWebRequest d request of
        Inl e \<Rightarrow> \<lparr>config_after = config1, engine_calls = [], result = Inl e\<rparr>
      | Inr wr \<Rightarrow>
          (case Auth d wr config1 of
             Inl e \<Rightarrow> \<lparr>config_after = config1, engine_calls = [(wr, config1)], result = Inl e\<rparr>
           | Inr resp \<Rightarrow>
               \<lparr>config_after = config1, engine_calls = [(wr, config1)],
                result = toFastifyReply d resp reply\<rparr>))"

text \<open>
  The host instance a plugin receives: the mount prefix it was registered under, the
  content types that have a parser, the plugins registered, the routes declared.
\<close>

record 'h route_options =
  route_method :: "string list"
  route_url :: string
  route_handler_of :: 'h

record 'h fastify_instance =
  inst_prefix :: string
  contentTypeParsers :: "string list"
  plugins :: "string list"
  routes :: "'h route_options list"

definition hasContentTypeParser :: "'h fastify_instance \<Rightarrow> string \<Rightarrow> bool" where
  "hasContentTypeParser f ct = (ct \<in> set (contentTypeParsers f))"

text \<open>
  The host refuses a second parser for a content type
  (\<^verbatim>\<open>FST_ERR_CTP_ALREADY_PRESENT\<close>); the form-body plugin adds the parser for
  \<^verbatim>\<open>application/x-www-form-urlencoded\<close>.
\<close>

definition addContentTypeParser ::
  "string \<Rightarrow> 'h fastify_instance \<Rightarrow> js_error + 'h fastify_instance" where
  "addContentTypeParser ct f =
     (if hasContentTypeParser f ct
      then Inl (JsError ''FST_ERR_CTP_ALREADY_PRESENT'' ct)
      else Inr (f\<lparr>contentTypeParsers := contentTypeParsers f @ [ct]\<rparr>))"

definition register_formbody :: "'h fastify_instance \<Rightarrow> js_error + 'h fastify_instance" where
  "register_formbody f =
     (case addContentTypeParser ''application/x-www-form-urlencoded'' f of
        Inl e \<Rightarrow> Inl e
      | Inr f1 \<Rightarrow> Inr (f1\<lparr>plugins := plugins f1 @ [''@fastify/formbody'']\<rparr>))"

text \<open>
  The host puts a route's URL after the instance's prefix, and drops the URL's
  leading slash when the prefix already ends in one.
\<close>

definition join_prefix :: "string \<Rightarrow> string \<Rightarrow> string" where
  "join_prefix pre path =
     (if pre \<noteq> [] \<and> last pre = CHR ''/'' \<and> path \<noteq> [] \<and> hd path = CHR ''/''
      then pre @ tl path else pre @ path)"

text \<open>
  \<^verbatim>\<open>fastify.route(opts)\<close> records the declaration with its full URL. Two things the
  host does at this point are left out: its special treatment of the URL \<^verbatim>\<open>/\<close>
  itself, which \<^verbatim>\<open>/*\<close> does not meet, and its refusal
  (\<^verbatim>\<open>FST_ERR_DUPLICATED_ROUTE\<close>) of a declaration for a method and URL that
  already have one.
\<close>

definition route :: "'h route_options \<Rightarrow> 'h fastify_instance \<Rightarrow> 'h fastify_instance" where
  "route opts f =
     f\<lparr>routes := routes f @ [opts\<lparr>route_url := join_prefix (inst_prefix f) (route_url opts)\<rparr>]\<rparr>"

type_synonym 'o handler =
  "'o auth_config \<Rightarrow> fastify_request \<Rightarrow> fastify_reply \<Rightarrow> ('o, fastify_reply) outcome"

text \<open>The asynchronous function \<^verbatim>\<open>FastifyAuth(config)\<close> returns.\<close>

definition FastifyAuth_plugin ::
  "'o deps \<Rightarrow> 'o handler fastify_instance \<Rightarrow> js_error + 'o handler fastify_instance" where
  "FastifyAuth_plugin d fastify =
     (case (if \<not> hasContentTypeParser fastify ''application/x-www-form-urlencoded''
            then register_formbody fastify else Inr fastify) of
        Inl e \<Rightarrow> Inl e
      | Inr f1 \<Rightarrow>
          Inr (route \<lparr>route_method = [''GET'', ''POST''], route_url = ''/*'',
                      route_handler_of = route_handler d\<rparr> f1))"

text \<open>
  \<^verbatim>\<open>FastifyAuth(config)\<close>: the configuration with the environment defaults filled
  in, and the plugin.
\<close>

definition FastifyAuth ::
  "'o deps \<Rightarrow> 'o auth_config \<Rightarrow>
   'o auth_config \<times> ('o handler fastify_instance \<Rightarrow> js_error + 'o handler fastify_instance)" where
  "FastifyAuth d config = (setEnvDefaults d config, FastifyAuth_plugin d)"




section \<open>Test doubles and sample inputs\<close>

text \<open>
  A double of the string conversion: right on strings, \<^verbatim>\<open>undefined\<close>, \<^verbatim>\<open>null\<close>,
  booleans and objects (an object with an own \<^verbatim>\<open>toString\<close> key cannot be
  converted, any other reads \<^verbatim>\<open>[object Object]\<close>); it refuses numbers and arrays.
\<close>

fun stub_ToString :: "jsval \<Rightarrow> js_error + string" where
  "stub_ToString JUndefined = Inr ''undefined''"
| "stub_ToString JNull = Inr ''null''"
| "stub_ToString (JBool b) = Inr (if b then ''true'' else ''false'')"
| "stub_ToString (JStr t) = Inr t"
| "stub_ToString (JObj kvs) =
     (if ''toString'' \<in> set (map fst kvs)
      then Inl (JsError ''TypeError'' ''Cannot convert object to primitive value'')
      else Inr ''[object Object]'')"
| "stub_ToString v = Inl (JsError ''TypeError'' ''not converted by this double'')"

text \<open>
  An engine double that gives a fixed answer (a response, or a thrown error) to every
  call, with translators that copy the obvious fields.
\<close>

definition stub_deps :: "js_error + response \<Rightarrow> 'o deps" where
  "stub_deps answer =
     \<lparr>setEnvDefaults = (\<lambda>c. c),
      createActionURL = (\<lambda>action proto hs c.
         Inr (proto @ ''://localhost'' @ (case basePath c of None \<Rightarrow> ''/auth'' | Some b \<Rightarrow> b)
              @ ''/'' @ action)),
      Auth = (\<lambda>rq c. answer),
      toWebRequest = (\<lambda>r.
         Inr \<lparr>wr_url = req_url r, wr_method = req_method r, wr_headers = headers r,
              wr_body = None\<rparr>),
      toFastifyReply = (\<lambda>resp rep.
         Inr (rep\<lparr>statusCode := (case status resp of None \<Rightarrow> 200 | Some s \<Rightarrow> s),
                  reply_headers := resp_headers resp, payload := body resp, sent := True\<rparr>)),
      ToString = stub_ToString\<rparr>"

definition json_response :: "int option \<Rightarrow> jsval \<Rightarrow> response" where
  "json_response st data =
     \<lparr>status = st, resp_headers = [(''content-type'', ''application/json'')], body = None,
      json = Inr data\<rparr>"

definition sample_request :: "string \<Rightarrow> string \<Rightarrow> string \<Rightarrow> fastify_request" where
  "sample_request m u pattern =
     \<lparr>req_method = m, req_url = u, protocol = ''https'',
      headers = [(''host'', ''localhost''), (''cookie'', ''sid=abc''), (''authorization'', ''Bearer t'')],
      routeOptions_config_url = pattern\<rparr>"

definition sample_config :: "unit auth_config" where
  "sample_config = \<lparr>basePath = None, others = ()\<rparr>"

definition fresh_reply :: fastify_reply where
  "fresh_reply = \<lparr>statusCode = 200, reply_headers = [], payload = None, sent = False\<rparr>"

definition sample_instance :: "string \<Rightarrow> string list \<Rightarrow> unit handler fastify_instance" where
  "sample_instance pre parsers =
     \<lparr>inst_prefix = pre, contentTypeParsers = parsers, plugins = [], routes = []\<rparr>"


text \<open>
  A body with members of its own: an object with at least one key, an array with at
  least one element, a string with at least one character.
\<close>

fun nonempty_json :: "jsval \<Rightarrow> bool" where
  "nonempty_json (JObj kvs) = (kvs \<noteq> [])"
| "nonempty_json (JArr xs) = (xs \<noteq> [])"
| "nonempty_json (JStr s) = (s \<noteq> [])"
| "nonempty_json v = False"

text \<open>
  "The call threw an error whose message equals the body's message field": the
  outcome is an error, and \<^verbatim>\<open>data.message\<close> is that error's message, a string.
\<close>

definition throws_body_message :: "response \<Rightarrow> js_error + jsval option \<Rightarrow> bool" where
  "throws_body_message resp r =
     (case r of
        Inr v \<Rightarrow> False
      | Inl e \<Rightarrow>
          (case json resp of
             Inl x \<Rightarrow> False
           | Inr data \<Rightarrow> get_message data = Inr (JStr (err_message e))))"


section \<open>Base-path extraction\<close>

lemma split_from_Nil: "split_from sep acc [] = [rev acc]"
  by (subst split_from.simps) simp

lemma split_from_hit:
  "sep \<noteq> [] \<Longrightarrow> prefix sep s \<Longrightarrow>
   split_from sep acc s = rev acc # split_from sep [] (drop (length sep) s)"
  by (subst split_from.simps) auto

lemma split_from_miss:
  "\<not> prefix sep (c # s) \<Longrightarrow> split_from sep acc (c # s) = split_from sep (c # acc) s"
  by (subst split_from.simps) simp

text \<open>
  The scan passes over a piece \<open>p\<close> that holds no \<^verbatim>\<open>/*\<close> and stops at the
  \<^verbatim>\<open>/*\<close> that follows it. No occurrence can straddle the end of \<open>p\<close>, because the
  separator's two characters differ.
\<close>

lemma split_from_wildcard:
  "\<not> sublist ''/*'' p \<Longrightarrow>
   split_from ''/*'' acc (p @ ''/*'' @ rest) = (rev acc @ p) # split_from ''/*'' [] rest"
proof (induction p arbitrary: acc)
  case Nil
  show ?case by (simp add: split_from_hit)
next
  case (Cons c p)
  from Cons.prems have np: "\<not> prefix ''/*'' (c # p)" and ns: "\<not> sublist ''/*'' p"
    by (simp_all add: sublist_Cons_right)
  have "\<not> prefix ''/*'' (c # p @ ''/*'' @ rest)"
    using np by (cases p) auto
  then have "split_from ''/*'' acc ((c # p) @ ''/*'' @ rest) =
             split_from ''/*'' (c # acc) (p @ ''/*'' @ rest)"
    by (simp add: split_from_miss)
  also have "\<dots> = (rev (c # acc) @ p) # split_from ''/*'' [] rest"
    using Cons.IH [OF ns] .
  finally show ?case by simp
qed

lemma js_split_wildcard:
  "\<not> sublist ''/*'' p \<Longrightarrow> js_split (p @ ''/*'') ''/*'' = [p, []]"
  using split_from_wildcard [of p "[]" "[]"] by (simp add: js_split_def split_from_Nil)

text \<open>
  C5. When the route's configured URL pattern is a literal prefix \<open>p\<close> followed by
  \<^verbatim>\<open>/*\<close>, and \<open>p\<close> itself holds no \<^verbatim>\<open>/*\<close>, base-path extraction returns exactly
  \<open>p\<close>; so a request matched by a route registered under another such prefix gets
  another base path.
\<close>

theorem getBasePath_strips_wildcard:
  assumes "\<not> sublist ''/*'' p" and "routeOptions_config_url req = p @ ''/*''"
  shows "getBasePath req = Some p \<and>
         (\<forall>q req'. \<not> sublist ''/*'' q \<and> routeOptions_config_url req' = q @ ''/*'' \<and> q \<noteq> p
            \<longrightarrow> getBasePath req' \<noteq> getBasePath req)"
  using assms by (auto simp: getBasePath_def js_split_wildcard)

text \<open>
  The theorem at the patterns \<^verbatim>\<open>/auth/*\<close> and \<^verbatim>\<open>/admin/auth/*\<close>: the first gives
  \<^verbatim>\<open>/auth\<close>, and the two base paths differ.
\<close>

theorem getBasePath_strips_wildcard_witness:
  "getBasePath (sample_request ''GET'' ''/auth/session'' ''/auth/*'') = Some ''/auth'' \<and>
   getBasePath (sample_request ''GET'' ''/admin/auth/session'' ''/admin/auth/*'')
     \<noteq> getBasePath (sample_request ''GET'' ''/auth/session'' ''/auth/*'')"
proof -
  have h1: "\<not> sublist ''/*'' ''/auth''" by code_simp
  have h2: "\<not> sublist ''/*'' ''/admin/auth''" by code_simp
  have u1: "routeOptions_config_url (sample_request ''GET'' ''/auth/session'' ''/auth/*'')
            = ''/auth'' @ ''/*''"
    by (simp add: sample_request_def)
  have u2: "routeOptions_config_url (sample_request ''GET'' ''/admin/auth/session'' ''/admin/auth/*'')
            = ''/admin/auth'' @ ''/*''"
    by (simp add: sample_request_def)
  have ne: "''/admin/auth'' \<noteq> ''/auth''" by simp
  from getBasePath_strips_wildcard [OF h1 u1]
  have a: "getBasePath (sample_request ''GET'' ''/auth/session'' ''/auth/*'') = Some ''/auth''"
    and b: "\<And>q req'. \<not> sublist ''/*'' q \<Longrightarrow> routeOptions_config_url req' = q @ ''/*'' \<Longrightarrow>
              q \<noteq> ''/auth'' \<Longrightarrow>
              getBasePath req' \<noteq> getBasePath (sample_request ''GET'' ''/auth/session'' ''/auth/*'')"
    by blast+
  from a b [OF h2 u2 ne] show ?thesis by blast
qed

section \<open>The session getter: what it returns and what it throws\<close>

text \<open>
  The emptiness test of the code, by the shape of the body: the body passes it exactly
  when it is an object, an array or a string with at least one member. A boolean or a
  number has no keys, so the getter answers \<^verbatim>\<open>null\<close> for it.
\<close>

lemma body_is_empty_iff: "body_is_empty data = Inr (\<not> nonempty_json data)"
  by (cases data) (simp_all add: body_is_empty_def split: js_number.splits)

lemma get_message_nonempty: "nonempty_json data \<Longrightarrow> \<exists>m. get_message data = Inr m"
  by (cases data) simp_all

text \<open>Once the URL is built and the engine has answered, the rest is \<open>session_result\<close>.\<close>

lemma getSession_answered:
  assumes "createActionURL d ''session'' (protocol req) (headers req) (setEnvDefaults d config) = Inr url"
    and "Auth d (session_request url req) (setEnvDefaults d config) = Inr resp"
  shows "getSession d req config =
           \<lparr>config_after = setEnvDefaults d config,
            engine_calls = [(session_request url req, setEnvDefaults d config)],
            result = session_result d resp\<rparr>"
  using assms by (simp add: getSession_def Let_def)

lemma stub_createActionURL:
  "createActionURL (stub_deps a) ''session'' (protocol (sample_request m u pat))
     (headers (sample_request m u pat)) (setEnvDefaults (stub_deps a) sample_config)
   = Inr ''https://localhost/auth/session''"
  by (simp add: stub_deps_def sample_request_def sample_config_def)

lemma stub_Auth: "Auth (stub_deps a) rq c = a"
  by (simp add: stub_deps_def)

lemma json_response_sel: "status (json_response st v) = st" "json (json_response st v) = Inr v"
  by (simp_all add: json_response_def)

text \<open>
  C2, as amended. When the engine's answer has a status other than 200 and the parsed
  body is an object, an array or a string with at least one member, the session getter
  throws: an \<^verbatim>\<open>Error\<close> whose message is the body's \<^verbatim>\<open>message\<close> field when that field
  is a string, an \<^verbatim>\<open>Error\<close> with the empty message when the body has no such field,
  and otherwise an \<^verbatim>\<open>Error\<close> whose message is the runtime's string conversion of the
  field, or what that conversion throws. For every other body it returns \<^verbatim>\<open>null\<close>.
\<close>

theorem getSession_failure_throws_message:
  assumes "createActionURL d ''session'' (protocol req) (headers req) (setEnvDefaults d config) = Inr url"
    and "Auth d (session_request url req) (setEnvDefaults d config) = Inr resp"
    and "status resp = Some s" and "s \<noteq> 200"
    and "json resp = Inr data"
  shows "(nonempty_json data \<longrightarrow>
            (\<exists>m. get_message data = Inr m \<and>
               result (getSession d req config) =
                 Inl (case m of
                        JStr t \<Rightarrow> JsError ''Error'' t
                      | JUndefined \<Rightarrow> JsError ''Error'' []
                      | _ \<Rightarrow> (case ToString d m of Inl e \<Rightarrow> e | Inr t \<Rightarrow> JsError ''Error'' t)))) \<and>
         (\<not> nonempty_json data \<longrightarrow> result (getSession d req config) = Inr None)"
proof (cases "nonempty_json data")
  case True
  from get_message_nonempty [OF True] obtain m where m: "get_message data = Inr m" ..
  have "(case new_Error d m of Inl e \<Rightarrow> Inl e | Inr err \<Rightarrow> Inl err) =
        (Inl (case m of
               JStr t \<Rightarrow> JsError ''Error'' t
             | JUndefined \<Rightarrow> JsError ''Error'' []
             | _ \<Rightarrow> (case ToString d m of Inl e \<Rightarrow> e | Inr t \<Rightarrow> JsError ''Error'' t))
         :: js_error + jsval option)"
    by (cases m) (simp_all add: new_Error_def split: sum.splits)
  with m True assms(3-5) show ?thesis
    by (simp add: getSession_answered [OF assms(1,2)] session_result_def body_is_empty_iff)
next
  case False
  with assms(3-5) show ?thesis
    by (simp add: getSession_answered [OF assms(1,2)] session_result_def body_is_empty_iff)
qed

text \<open>
  Status 401 with the body \<^verbatim>\<open>{"message":"invalid"}\<close>: the error's message is
  \<^verbatim>\<open>invalid\<close>. Status 401 with the body \<^verbatim>\<open>true\<close>: \<^verbatim>\<open>null\<close> is returned.
\<close>

theorem getSession_failure_throws_message_witness:
  "result (getSession (stub_deps (Inr (json_response (Some 401) (JObj [(''message'', JStr ''invalid'')]))))
             (sample_request ''GET'' ''/'' ''/'') sample_config)
   = Inl (JsError ''Error'' ''invalid'') \<and>
   result (getSession (stub_deps (Inr (json_response (Some 401) (JBool True))))
             (sample_request ''GET'' ''/'' ''/'') sample_config)
   = Inr None"
proof -
  have ne: "(401::int) \<noteq> 200" by simp
  from getSession_failure_throws_message
         [OF stub_createActionURL stub_Auth json_response_sel(1) ne json_response_sel(2),
          of "JObj [(''message'', JStr ''invalid'')]"]
       getSession_failure_throws_message
         [OF stub_createActionURL stub_Auth json_response_sel(1) ne json_response_sel(2),
          of "JBool True"]
  show ?thesis by simp
qed

text \<open>
  C2 as stated fails. Status 500 with the body \<^verbatim>\<open>{"error":"denied"}\<close>: the body has
  no \<^verbatim>\<open>message\<close> field and the error thrown has the empty message. Status 500 with
  the body \<^verbatim>\<open>{"message":{"code":1}}\<close>: the field is an object and the error's
  message is the text \<^verbatim>\<open>[object Object]\<close>. Status 401 with the body \<^verbatim>\<open>true\<close>:
  nothing is thrown.
\<close>

theorem getSession_message_counterexample:
  "\<not> throws_body_message (json_response (Some 500) (JObj [(''error'', JStr ''denied'')]))
       (result (getSession (stub_deps (Inr (json_response (Some 500) (JObj [(''error'', JStr ''denied'')]))))
                  (sample_request ''GET'' ''/'' ''/'') sample_config)) \<and>
   \<not> throws_body_message (json_response (Some 500) (JObj [(''message'', JObj [(''code'', JNum (Finite 1 0))])]))
       (result (getSession (stub_deps (Inr (json_response (Some 500) (JObj [(''message'', JObj [(''code'', JNum (Finite 1 0))])]))))
                  (sample_request ''GET'' ''/'' ''/'') sample_config)) \<and>
   \<not> throws_body_message (json_response (Some 401) (JBool True))
       (result (getSession (stub_deps (Inr (json_response (Some 401) (JBool True))))
                  (sample_request ''GET'' ''/'' ''/'') sample_config))"
  by (simp add: throws_body_message_def getSession_def stub_deps_def json_response_def
        sample_request_def sample_config_def session_request_def session_result_def
        body_is_empty_def new_Error_def Let_def)

text \<open>
  C3. When the body parses to \<^verbatim>\<open>null\<close>, to \<^verbatim>\<open>undefined\<close> or to an object without
  keys, the session getter returns \<^verbatim>\<open>null\<close>, whatever the status is.
\<close>

theorem getSession_empty_body_null:
  assumes "createActionURL d ''session'' (protocol req) (headers req) (setEnvDefaults d config) = Inr url"
    and "Auth d (session_request url req) (setEnvDefaults d config) = Inr resp"
    and "json resp = Inr data"
    and "data = JNull \<or> data = JUndefined \<or> data = JObj []"
  shows "result (getSession d req config) = Inr None"
  using assms(3,4)
  by (auto simp: getSession_answered [OF assms(1,2)] session_result_def body_is_empty_def)

text \<open>\<^verbatim>\<open>null\<close> with status 200, \<^verbatim>\<open>{}\<close> with status 401, \<^verbatim>\<open>undefined\<close> with no status.\<close>

theorem getSession_empty_body_null_witness:
  "result (getSession (stub_deps (Inr (json_response (Some 200) JNull)))
             (sample_request ''GET'' ''/'' ''/'') sample_config) = Inr None \<and>
   result (getSession (stub_deps (Inr (json_response (Some 401) (JObj []))))
             (sample_request ''GET'' ''/'' ''/'') sample_config) = Inr None \<and>
   result (getSession (stub_deps (Inr (json_response None JUndefined)))
             (sample_request ''GET'' ''/'' ''/'') sample_config) = Inr None"
  using getSession_empty_body_null
          [OF stub_createActionURL stub_Auth json_response_sel(2) [of "Some 200" JNull]]
        getSession_empty_body_null
          [OF stub_createActionURL stub_Auth json_response_sel(2) [of "Some 401" "JObj []"]]
        getSession_empty_body_null
          [OF stub_createActionURL stub_Auth json_response_sel(2) [of None JUndefined]]
  by simp

text \<open>
  C4, as amended. When the status is 200, the session getter returns the parsed body
  if it is an object with at least one key, an array with at least one element or a
  string with at least one character, and \<^verbatim>\<open>null\<close> for every other body.
\<close>

theorem getSession_success_returns_body:
  assumes "createActionURL d ''session'' (protocol req) (headers req) (setEnvDefaults d config) = Inr url"
    and "Auth d (session_request url req) (setEnvDefaults d config) = Inr resp"
    and "status resp = Some 200"
    and "json resp = Inr data"
  shows "result (getSession d req config) = (if nonempty_json data then Inr (Some data) else Inr None)"
  using assms(3,4)
  by (simp add: getSession_answered [OF assms(1,2)] session_result_def body_is_empty_iff)

text \<open>Status 200 with the body \<^verbatim>\<open>{"user":{"id":"1"}}\<close>.\<close>

theorem getSession_success_returns_body_witness:
  "result (getSession (stub_deps (Inr (json_response (Some 200) (JObj [(''user'', JObj [(''id'', JStr ''1'')])]))))
             (sample_request ''GET'' ''/'' ''/'') sample_config)
   = Inr (Some (JObj [(''user'', JObj [(''id'', JStr ''1'')])]))"
  using getSession_success_returns_body
          [OF stub_createActionURL stub_Auth json_response_sel(1) json_response_sel(2),
           of "JObj [(''user'', JObj [(''id'', JStr ''1'')])]"]
  by simp

text \<open>
  C4 as stated fails. Status 200 with the body \<^verbatim>\<open>true\<close>, and with the body \<^verbatim>\<open>5\<close>:
  the getter returns \<^verbatim>\<open>null\<close>, not the parsed body.
\<close>

theorem getSession_success_scalar_counterexample:
  "result (getSession (stub_deps (Inr (json_response (Some 200) (JBool True))))
             (sample_request ''GET'' ''/'' ''/'') sample_config) = Inr None \<and>
   result (getSession (stub_deps (Inr (json_response (Some 200) (JBool True))))
             (sample_request ''GET'' ''/'' ''/'') sample_config) \<noteq> Inr (Some (JBool True)) \<and>
   result (getSession (stub_deps (Inr (json_response (Some 200) (JNum (Finite 5 0)))))
             (sample_request ''GET'' ''/'' ''/'') sample_config) = Inr None \<and>
   result (getSession (stub_deps (Inr (json_response (Some 200) (JNum (Finite 5 0)))))
             (sample_request ''GET'' ''/'' ''/'') sample_config) \<noteq> Inr (Some (JNum (Finite 5 0)))"
  by (simp add: getSession_def stub_deps_def json_response_def
        sample_request_def sample_config_def session_request_def session_result_def
        body_is_empty_def Let_def)

text \<open>
  C10, as amended. When the answer has no status at all, the status defaults to 200
  and nothing is thrown: the session getter returns the parsed body if it is an object,
  an array or a string with at least one member, and \<^verbatim>\<open>null\<close> for every other body.
\<close>

theorem getSession_absent_status_is_success:
  assumes "createActionURL d ''session'' (protocol req) (headers req) (setEnvDefaults d config) = Inr url"
    and "Auth d (session_request url req) (setEnvDefaults d config) = Inr resp"
    and "status resp = None"
    and "json resp = Inr data"
  shows "result (getSession d req config) = (if nonempty_json data then Inr (Some data) else Inr None)"
  using assms(3,4)
  by (simp add: getSession_answered [OF assms(1,2)] session_result_def body_is_empty_iff)

text \<open>No status, and a body that would be an error under any other status.\<close>

theorem getSession_absent_status_is_success_witness:
  "result (getSession (stub_deps (Inr (json_response None (JObj [(''message'', JStr ''invalid'')]))))
             (sample_request ''GET'' ''/'' ''/'') sample_config)
   = Inr (Some (JObj [(''message'', JStr ''invalid'')]))"
  using getSession_absent_status_is_success
          [OF stub_createActionURL stub_Auth json_response_sel(1) json_response_sel(2),
           of "JObj [(''message'', JStr ''invalid'')]"]
  by simp

text \<open>
  C10 as stated fails. No status with the body \<^verbatim>\<open>true\<close>, and with the body \<^verbatim>\<open>5\<close>:
  the getter returns \<^verbatim>\<open>null\<close>, not the parsed body.
\<close>

theorem getSession_absent_status_scalar_counterexample:
  "result (getSession (stub_deps (Inr (json_response None (JBool True))))
             (sample_request ''GET'' ''/'' ''/'') sample_config) = Inr None \<and>
   result (getSession (stub_deps (Inr (json_response None (JBool True))))
             (sample_request ''GET'' ''/'' ''/'') sample_config) \<noteq> Inr (Some (JBool True)) \<and>
   result (getSession (stub_deps (Inr (json_response None (JNum (Finite 5 0)))))
             (sample_request ''GET'' ''/'' ''/'') sample_config) = Inr None \<and>
   result (getSession (stub_deps (Inr (json_response None (JNum (Finite 5 0)))))
             (sample_request ''GET'' ''/'' ''/'') sample_config) \<noteq> Inr (Some (JNum (Finite 5 0)))"
  by (simp add: getSession_def stub_deps_def json_response_def
        sample_request_def sample_config_def session_request_def session_result_def
        body_is_empty_def Let_def)

text \<open>
  C7. The request the session getter hands to the engine carries exactly one header,
  \<^verbatim>\<open>cookie\<close>, with the inbound request's cookie as its value (the empty string
  when the inbound request has none); no other inbound header is in it.
\<close>

theorem getSession_request_only_cookie:
  assumes "createActionURL d ''session'' (protocol req) (headers req) (setEnvDefaults d config) = Inr url"
  shows "\<exists>rq c. engine_calls (getSession d req config) = [(rq, c)] \<and>
           wr_headers rq =
             [(''cookie'', case map_of (headers req) ''cookie'' of None \<Rightarrow> [] | Some v \<Rightarrow> v)] \<and>
           (\<forall>n. n \<noteq> ''cookie'' \<longrightarrow> map_of (wr_headers rq) n = None)"
  using assms by (cases "Auth d (session_request url req) (setEnvDefaults d config)")
    (simp_all add: getSession_def Let_def session_request_def)

text \<open>
  An inbound request with \<^verbatim>\<open>host\<close>, \<^verbatim>\<open>cookie\<close> and \<^verbatim>\<open>authorization\<close> headers: only
  the cookie reaches the engine.
\<close>

theorem getSession_request_only_cookie_witness:
  "map (\<lambda>(rq, c). wr_headers rq)
     (engine_calls (getSession (stub_deps (Inr (json_response (Some 200) JNull)))
        (sample_request ''GET'' ''/profile'' ''/profile'') sample_config))
   = [[(''cookie'', ''sid=abc'')]] \<and>
   map_of (headers (sample_request ''GET'' ''/profile'' ''/profile'')) ''authorization'' = Some ''Bearer t''"
proof -
  let ?req = "sample_request ''GET'' ''/profile'' ''/profile''"
  have c: "map_of (headers ?req) ''cookie'' = Some ''sid=abc''"
    by (simp add: sample_request_def)
  have h: "map_of (headers ?req) ''authorization'' = Some ''Bearer t''"
    by (simp add: sample_request_def)
  have u: "createActionURL (stub_deps (Inr (json_response (Some 200) JNull))) ''session''
             (protocol ?req) (headers ?req)
             (setEnvDefaults (stub_deps (Inr (json_response (Some 200) JNull))) sample_config)
           = Inr ''https://localhost/auth/session''"
    by (rule stub_createActionURL)
  from getSession_request_only_cookie [OF u] c h show ?thesis by auto
qed

section \<open>The catch-all handler\<close>

lemma getBasePath_sample: "getBasePath (sample_request m u ''/auth/*'') = Some ''/auth''"
proof -
  have "\<not> sublist ''/*'' ''/auth''" by code_simp
  from js_split_wildcard [OF this] show ?thesis
    by (simp add: getBasePath_def sample_request_def)
qed

text \<open>
  C8. The catch-all handler changes one field of the shared configuration object,
  \<open>basePath\<close>, which it overwrites with the value computed from the route pattern;
  every other field is as it was, and the engine is called with exactly that
  configuration.
\<close>
theorem route_handler_config_frame:
  "config_after (route_handler d config request reply) = config\<lparr>basePath := getBasePath request\<rparr> \<and>
   others (config_after (route_handler d config request reply)) = others config \<and>
   (\<forall>wr. toWebRequest d request = Inr wr \<longrightarrow>
      engine_calls (route_handler d config request reply)
        = [(wr, config\<lparr>basePath := getBasePath request\<rparr>)])"
  by (auto simp: route_handler_def Let_def split: sum.splits)

text \<open>
  A configuration holding a stale base path and a secret, on a request matched by
  \<^verbatim>\<open>/auth/*\<close>: the base path becomes \<^verbatim>\<open>/auth\<close>, the secret reaches the engine as it
  was.
\<close>

theorem route_handler_config_frame_witness:
  "config_after (route_handler (stub_deps (Inr (json_response (Some 200) JNull)))
       \<lparr>basePath = Some ''/stale'', others = ''secret''\<rparr>
       (sample_request ''GET'' ''/auth/session'' ''/auth/*'') fresh_reply)
     = \<lparr>basePath = Some ''/auth'', others = ''secret''\<rparr> \<and>
   map snd (engine_calls (route_handler (stub_deps (Inr (json_response (Some 200) JNull)))
       \<lparr>basePath = Some ''/stale'', others = ''secret''\<rparr>
       (sample_request ''GET'' ''/auth/session'' ''/auth/*'') fresh_reply))
     = [\<lparr>basePath = Some ''/auth'', others = ''secret''\<rparr>]"
proof -
  let ?d = "stub_deps (Inr (json_response (Some 200) JNull)) :: string deps"
  let ?req = "sample_request ''GET'' ''/auth/session'' ''/auth/*''"
  have w: "toWebRequest ?d ?req =
             Inr \<lparr>wr_url = ''/auth/session'', wr_method = ''GET'', wr_headers = headers ?req,
                  wr_body = None\<rparr>"
    by (simp add: stub_deps_def sample_request_def)
  from route_handler_config_frame
         [of ?d "\<lparr>basePath = Some ''/stale'', others = ''secret''\<rparr>" ?req fresh_reply] w
  show ?thesis by (simp add: getBasePath_sample)
qed

text \<open>
  C9. When the engine throws, the handler's outcome is that same error: the engine
  was called once, nothing caught or replaced it, and the reply translator was not
  reached.
\<close>
theorem route_handler_engine_error_propagates:
  assumes "toWebRequest d request = Inr wr"
    and "Auth d wr (config\<lparr>basePath := getBasePath request\<rparr>) = Inl e"
  shows "result (route_handler d config request reply) = Inl e \<and>
         engine_calls (route_handler d config request reply)
           = [(wr, config\<lparr>basePath := getBasePath request\<rparr>)]"
  using assms by (simp add: route_handler_def Let_def)

text \<open>An engine that throws \<^verbatim>\<open>AuthError: boom\<close> on a POST to \<^verbatim>\<open>/auth/signin\<close>.\<close>

theorem route_handler_engine_error_propagates_witness:
  "result (route_handler (stub_deps (Inl (JsError ''AuthError'' ''boom''))) sample_config
       (sample_request ''POST'' ''/auth/signin'' ''/auth/*'') fresh_reply)
     = Inl (JsError ''AuthError'' ''boom'') \<and>
   length (engine_calls (route_handler (stub_deps (Inl (JsError ''AuthError'' ''boom''))) sample_config
       (sample_request ''POST'' ''/auth/signin'' ''/auth/*'') fresh_reply)) = 1"
proof -
  let ?d = "stub_deps (Inl (JsError ''AuthError'' ''boom'')) :: unit deps"
  let ?req = "sample_request ''POST'' ''/auth/signin'' ''/auth/*''"
  have w: "toWebRequest ?d ?req =
             Inr \<lparr>wr_url = ''/auth/signin'', wr_method = ''POST'', wr_headers = headers ?req,
                  wr_body = None\<rparr>"
    by (simp add: stub_deps_def sample_request_def)
  from route_handler_engine_error_propagates [OF w stub_Auth, of sample_config fresh_reply]
  show ?thesis by simp
qed

section \<open>Registration: the form-body parser and the route\<close>

lemma register_formbody_fresh:
  "\<not> hasContentTypeParser f ''application/x-www-form-urlencoded'' \<Longrightarrow>
   register_formbody f =
     Inr (f\<lparr>contentTypeParsers := contentTypeParsers f @ [''application/x-www-form-urlencoded''],
            plugins := plugins f @ [''@fastify/formbody'']\<rparr>)"
  by (simp add: register_formbody_def addContentTypeParser_def)

text \<open>Registering the form-body plugin over an existing parser is what the guard avoids.\<close>

lemma register_formbody_duplicate:
  "hasContentTypeParser f ''application/x-www-form-urlencoded'' \<Longrightarrow>
   register_formbody f = Inl (JsError ''FST_ERR_CTP_ALREADY_PRESENT'' ''application/x-www-form-urlencoded'')"
  by (simp add: register_formbody_def addContentTypeParser_def)

text \<open>
  C6. Registration always succeeds, and the form-body plugin is registered by it
  exactly when the host had no parser for
  \<^verbatim>\<open>application/x-www-form-urlencoded\<close>: with a parser present, the parsers and the
  registered plugins are left as they were; without one, the parser and the plugin
  are added.
\<close>
theorem FastifyAuth_formbody_guard:
  "\<exists>f'. snd (FastifyAuth d config) f = Inr f' \<and>
     (if hasContentTypeParser f ''application/x-www-form-urlencoded''
      then contentTypeParsers f' = contentTypeParsers f \<and> plugins f' = plugins f
      else contentTypeParsers f' = contentTypeParsers f @ [''application/x-www-form-urlencoded''] \<and>
           plugins f' = plugins f @ [''@fastify/formbody''])"
  by (simp add: FastifyAuth_def FastifyAuth_plugin_def register_formbody_fresh route_def)

text \<open>A host that already has the form parser, and one that only has a JSON parser.\<close>

theorem FastifyAuth_formbody_guard_witness:
  "(\<exists>f'. snd (FastifyAuth (stub_deps (Inr (json_response (Some 200) JNull))) sample_config)
            (sample_instance ''/auth'' [''application/x-www-form-urlencoded'']) = Inr f' \<and>
          contentTypeParsers f' = [''application/x-www-form-urlencoded''] \<and> plugins f' = []) \<and>
   (\<exists>f'. snd (FastifyAuth (stub_deps (Inr (json_response (Some 200) JNull))) sample_config)
            (sample_instance ''/auth'' [''application/json'']) = Inr f' \<and>
          contentTypeParsers f' = [''application/json'', ''application/x-www-form-urlencoded''] \<and>
          plugins f' = [''@fastify/formbody''])"
proof -
  have a: "hasContentTypeParser (sample_instance ''/auth'' [''application/x-www-form-urlencoded''])
             ''application/x-www-form-urlencoded''"
    by (simp add: hasContentTypeParser_def sample_instance_def)
  have b: "\<not> hasContentTypeParser (sample_instance ''/auth'' [''application/json''])
             ''application/x-www-form-urlencoded''"
    by (simp add: hasContentTypeParser_def sample_instance_def)
  from FastifyAuth_formbody_guard
         [of "stub_deps (Inr (json_response (Some 200) JNull))" sample_config
             "sample_instance ''/auth'' [''application/x-www-form-urlencoded'']"] a
       FastifyAuth_formbody_guard
         [of "stub_deps (Inr (json_response (Some 200) JNull))" sample_config
             "sample_instance ''/auth'' [''application/json'']"] b
  show ?thesis by (simp add: sample_instance_def)
qed








end
